theory Spec2Isabelle
  imports Main "HOL-Library.Sublist" "HOL-Library.Log_Nat"
begin

section \<open>Data model\<close>

text \<open>
  The exceptions that leave the functions modelled here: the scripts catch some
  exception classes and let these pass.
\<close>

datatype exn = FileNotFoundError | TypeError | OverflowError | AttributeError

text \<open>
  The scripts keep claims, sessions and completion entries as open Python dictionaries
  loaded from YAML. Each dictionary is modelled as a record. A key that the scripts read
  with \<open>d.get(key)\<close> is an optional field: \<open>None\<close> stands for a key that is absent or
  holds Python's \<open>None\<close>, which \<open>get\<close> does not tell apart. A key that they read with
  a default, \<open>d.get(key, default)\<close>, has three cases, since the default replaces an
  absent key and not a \<open>None\<close>. Timestamps written into entries are kept as strings,
  as the scripts write them.
\<close>

datatype key_value = Absent | Null | Str string

text \<open>\<open>d.get(key)\<close> and \<open>d.get(key, default)\<close> for such a key.\<close>

definition dict_get :: "key_value \<Rightarrow> string option" where
  "dict_get v = (case v of Absent \<Rightarrow> None | Null \<Rightarrow> None | Str s \<Rightarrow> Some s)"

definition dict_get_default :: "string \<Rightarrow> key_value \<Rightarrow> string option" where
  "dict_get_default dflt v =
     (case v of Absent \<Rightarrow> Some dflt | Null \<Rightarrow> None | Str s \<Rightarrow> Some s)"

record claim =
  cc_id :: key_value
  plan :: "int option"
  feature :: "string option"
  task :: "string option"
  claimed_at :: "string option"
  session_id :: "string option"
  worktree_path :: "string option"
  files :: "string list option"

text \<open>
  An entry of the \<open>completed\<close> list. The field names carry the prefix \<open>c_\<close> where the
  key is shared with a claim.
\<close>

record completion =
  c_cc_id :: "string option"
  c_plan :: "int option"
  c_task :: "string option"
  completed_at :: string
  auto_completed :: "bool option"
  reason :: "string option"
  commit :: "string option"

text \<open>The ledger \<open>.claude/active-work.yaml\<close>: the dictionary called \<open>data\<close> in the scripts.\<close>

record ledger =
  claims :: "claim list"
  completed :: "completion list"

subsection \<open>Python truthiness\<close>

text \<open>
  \<open>if x:\<close> on an optional integer is false for \<open>None\<close> and for \<open>0\<close>; on an optional
  string it is false for \<open>None\<close> and for the empty string.
\<close>

definition truthy_int :: "int option \<Rightarrow> bool" where
  "truthy_int x = (case x of None \<Rightarrow> False | Some n \<Rightarrow> n \<noteq> 0)"

definition truthy_str :: "string option \<Rightarrow> bool" where
  "truthy_str x = (case x of None \<Rightarrow> False | Some s \<Rightarrow> s \<noteq> [])"

text \<open>The negative slice \<open>xs[-n:]\<close>: the last \<open>n\<close> entries, all of them when there are fewer.\<close>

definition last_n :: "nat \<Rightarrow> 'a list \<Rightarrow> 'a list" where
  "last_n n xs = drop (length xs - n) xs"

section \<open>ConflictResolver: \<open>check_scope_conflict\<close>\<close>

text \<open>
  The loop of \<open>check_scope_conflict\<close> over \<open>existing_claims\<close>, with the list
  \<open>conflicts\<close> it appends to. Both \<open>continue\<close> statements end the iteration.
\<close>

fun scope_loop :: "int option \<Rightarrow> string option \<Rightarrow> claim list \<Rightarrow> claim list \<Rightarrow> claim list" where
  "scope_loop new_plan new_feature [] conflicts = conflicts"
| "scope_loop new_plan new_feature (c # rest) conflicts =
     (let existing_plan = plan c; existing_feature = feature c in
      if truthy_int new_plan \<and> truthy_int existing_plan \<and> new_plan = existing_plan
      then scope_loop new_plan new_feature rest (conflicts @ [c])
      else if truthy_str new_feature \<and> truthy_str existing_feature
              \<and> new_feature = existing_feature
      then (if existing_feature \<noteq> Some ''shared''
            then scope_loop new_plan new_feature rest (conflicts @ [c])
            else scope_loop new_plan new_feature rest conflicts)
      else scope_loop new_plan new_feature rest conflicts)"

definition check_scope_conflict :: "int option \<Rightarrow> string option \<Rightarrow> claim list \<Rightarrow> claim list" where
  "check_scope_conflict new_plan new_feature existing_claims =
     (if new_feature = Some ''shared'' then []
      else scope_loop new_plan new_feature existing_claims [])"

text \<open>
  The conflict rule in the words of the specification: the new plan is set and equals the
  claim's plan, or the new feature is set, equals the claim's feature, and that feature is
  not \<open>shared\<close>.
\<close>

definition spec_conflict :: "int option \<Rightarrow> string option \<Rightarrow> claim \<Rightarrow> bool" where
  "spec_conflict new_plan new_feature c =
     ((new_plan \<noteq> None \<and> new_plan = plan c)
      \<or> (new_feature \<noteq> None \<and> new_feature = feature c \<and> feature c \<noteq> Some ''shared''))"

text \<open>
  The rule the loop applies: a plan of \<open>0\<close> and an empty feature name count as not set.
\<close>

definition code_conflict :: "int option \<Rightarrow> string option \<Rightarrow> claim \<Rightarrow> bool" where
  "code_conflict new_plan new_feature c =
     ((truthy_int new_plan \<and> new_plan = plan c)
      \<or> (truthy_str new_feature \<and> new_feature = feature c \<and> feature c \<noteq> Some ''shared''))"

text \<open>Example claims.\<close>

definition claim_of :: "string \<Rightarrow> int option \<Rightarrow> string option \<Rightarrow> string option \<Rightarrow> claim" where
  "claim_of ident p f wt =
     \<lparr> cc_id = Str ident, plan = p, feature = f, task = Some ''work'',
       claimed_at = Some ''2026-01-01T00:00:00Z'', session_id = Some ''s-1'',
       worktree_path = wt, files = None \<rparr>"

section \<open>OwnershipGuard: \<open>safe_worktree_remove.py\<close>\<close>

text \<open>
  Instants are integers: microseconds since the epoch, in UTC. A parsed ISO-8601 string
  is its wall-clock reading together with the offset of its time zone, if it names one.
\<close>

record iso_datetime =
  wall_us :: int
  utcoffset_us :: "int option"

text \<open>
  \<open>if t.tzinfo is None: t = t.replace(tzinfo=timezone.utc)\<close>, then the instant of \<open>t\<close>.
\<close>

definition utc_instant :: "iso_datetime \<Rightarrow> int" where
  "utc_instant t = (case utcoffset_us t of None \<Rightarrow> wall_us t | Some off \<Rightarrow> wall_us t - off)"

definition hours_us :: "int \<Rightarrow> int" where
  "hours_us h = h * 3600000000"

definition minutes_us :: "int \<Rightarrow> int" where
  "minutes_us m = m * 60000000"

text \<open>
  \<open>str.strip()\<close>. A character is a code point below 256; the white space among these is
  what \<open>str.isspace\<close> accepts there.
\<close>

definition is_space :: "char \<Rightarrow> bool" where
  "is_space c = (c \<in> set [CHR '' '', CHR 0x09, CHR 0x0A, CHR 0x0B, CHR 0x0C, CHR 0x0D,
                            CHR 0x1C, CHR 0x1D, CHR 0x1E, CHR 0x1F, CHR 0x85, CHR 0xA0])"

definition strip :: "string \<Rightarrow> string" where
  "strip s = rev (dropWhile is_space (rev (dropWhile is_space s)))"

record process =
  pid :: int
  pname :: string
  proc_cwd :: "string option"

text \<open>
  The result of \<open>subprocess.run(["git", "branch", "-r", "--merged", "origin/main"],
  check=True)\<close>: the program is not found (\<open>FileNotFoundError\<close>), it exits with an error
  (\<open>CalledProcessError\<close>), or it prints the lines given. And the result of
  \<open>subprocess.run(["gh", "pr", "list", ...])\<close>: the program is not found, or the
  \<open>headRefName\<close> of each merged pull request it lists (none when it exits with an error
  or prints no JSON).
\<close>

datatype git_merged_result = Git_not_found | Git_failed | Git_lines "string list"

datatype gh_merged_result = Gh_not_found | Gh_heads "string option list"

text \<open>
  What the scripts read from outside themselves. Both read the clock
  (\<open>datetime.now(timezone.utc)\<close>) and parse ISO-8601 strings with
  \<open>datetime.fromisoformat\<close>, which gives \<open>None\<close> here where it raises \<open>ValueError\<close>.
  \<open>safe_worktree_remove.py\<close> also reads the results of the git and gh commands it runs,
  the session marker file, the process table, and path normalisation. \<open>run_cmd\<close> catches
  every exception, so its result is always a pair of a success flag and the output.
\<close>

record clock =
  fromisoformat :: "string \<Rightarrow> iso_datetime option"
  now_us :: int

record remove_env = clock +
  resolve :: "string \<Rightarrow> string"
  abspath :: "string \<Rightarrow> string"
  git_branch_show_current :: "string \<Rightarrow> bool \<times> string"
  git_status_porcelain :: "string \<Rightarrow> bool \<times> string"
  git_merged :: git_merged_result
  gh_merged :: gh_merged_result
  marker_file :: "string \<Rightarrow> string option"
  has_psutil :: bool
  process_iter :: "process list"
  getpid :: int

text \<open>\<open>my_identity\<close>: the dictionary of \<open>get_current_cc_identity\<close>, or one passed in.\<close>

record identity =
  branch :: key_value
  is_main :: "bool option"
  cwd :: key_value

definition SESSION_STALENESS_HOURS :: int where
  "SESSION_STALENESS_HOURS = 24"

definition has_uncommitted_changes :: "remove_env \<Rightarrow> string \<Rightarrow> bool \<times> string" where
  "has_uncommitted_changes env wt =
     (case git_status_porcelain env wt of
        (success, output) \<Rightarrow>
          if \<not> success then (False, ''Could not check status: '' @ output)
          else if strip output \<noteq> [] then (True, output)
          else (False, []))"

definition get_worktree_branch :: "remove_env \<Rightarrow> string \<Rightarrow> string option" where
  "get_worktree_branch env wt =
     (case git_branch_show_current env wt of
        (success, output) \<Rightarrow> if success then Some output else None)"

text \<open>
  \<open>is_branch_merged\<close>. Its \<open>try\<close> catches \<open>CalledProcessError\<close> only: a program that is
  not found raises \<open>FileNotFoundError\<close> out of the function. \<open>gh\<close> is run only when no
  line of git matches.
\<close>

definition line_matches :: "string \<Rightarrow> string \<Rightarrow> bool" where
  "line_matches br line =
     (suffix (''/'' @ br) (strip line) \<or> strip line = ''origin/'' @ br)"

definition is_branch_merged :: "remove_env \<Rightarrow> string \<Rightarrow> exn + bool" where
  "is_branch_merged env br =
     (case git_merged env of
        Git_not_found \<Rightarrow> Inl FileNotFoundError
      | Git_failed \<Rightarrow> Inr False
      | Git_lines lines \<Rightarrow>
          if list_ex (line_matches br) lines then Inr True
          else (case gh_merged env of
                  Gh_not_found \<Rightarrow> Inl FileNotFoundError
                | Gh_heads heads \<Rightarrow> Inr (list_ex (\<lambda>h. h = Some br) heads)))"


text \<open>
  \<open>release_claim\<close> of \<open>safe_worktree_remove.py\<close>. The claims file is \<open>None\<close> when it does
  not exist or does not parse; the function then returns without writing. Its first
  argument is the \<open>cc_id\<close> read from the claim, which can be \<open>None\<close>.
\<close>

definition release_claim_worktree ::
    "string option \<Rightarrow> string \<Rightarrow> ledger option \<Rightarrow> ledger option" where
  "release_claim_worktree ident now_iso claims_file =
     (case claims_file of
        None \<Rightarrow> None
      | Some data \<Rightarrow>
          (let new_claims = filter (\<lambda>c. dict_get (cc_id c) \<noteq> ident) (claims data) in
           if length new_claims < length (claims data)
           then Some (data\<lparr> claims := new_claims,
                            completed := completed data @
                              [\<lparr> c_cc_id = ident, c_plan = None, c_task = None,
                                 completed_at = now_iso, auto_completed = None,
                                 reason = Some ''auto_released_merged_pr'',
                                 commit = None \<rparr>] \<rparr>)
           else Some data))"

text \<open>The loop of \<open>check_worktree_claimed\<close>: the first claim whose path resolves to ours.\<close>

fun find_claim_for :: "remove_env \<Rightarrow> string \<Rightarrow> claim list \<Rightarrow> bool \<times> claim option" where
  "find_claim_for env normalized_path [] = (False, None)"
| "find_claim_for env normalized_path (c # rest) =
     (case worktree_path c of
        None \<Rightarrow> find_claim_for env normalized_path rest
      | Some claim_worktree \<Rightarrow>
          if claim_worktree \<noteq> [] \<and> normalized_path = resolve env claim_worktree
          then (True, Some c)
          else find_claim_for env normalized_path rest)"

definition check_worktree_claimed :: "remove_env \<Rightarrow> string \<Rightarrow> ledger option \<Rightarrow> bool \<times> claim option" where
  "check_worktree_claimed env wt claims_file =
     (case claims_file of
        None \<Rightarrow> (False, None)
      | Some data \<Rightarrow> find_claim_for env (resolve env wt) (claims data))"

definition check_processes_using_worktree :: "remove_env \<Rightarrow> string \<Rightarrow> process list" where
  "check_processes_using_worktree env wt =
     (if \<not> has_psutil env then []
      else filter (\<lambda>p. (case proc_cwd p of
                           None \<Rightarrow> False
                         | Some d \<Rightarrow> d \<noteq> [] \<and> prefix (abspath env wt) d \<and> pid p \<noteq> getpid env))
             (process_iter env))"

definition check_session_marker_recent :: "remove_env \<Rightarrow> string \<Rightarrow> bool \<times> int option" where
  "check_session_marker_recent env wt =
     (case marker_file env wt of
        None \<Rightarrow> (False, None)
      | Some content \<Rightarrow>
          (case fromisoformat env (strip content) of
             None \<Rightarrow> (False, None)
           | Some t \<Rightarrow>
               (let marker_time = utc_instant t; age = now_us env - marker_time in
                if age < hours_us SESSION_STALENESS_HOURS then (True, Some marker_time)
                else (False, Some marker_time))))"

text \<open>The third component of the verdict of \<open>should_block_removal\<close>.\<close>

datatype info = Claim_info claim | Marker_info "int option" | Process_info "process list"

text \<open>
  The part of \<open>should_block_removal\<close> after the claim check: session marker, then
  processes, then no block.
\<close>

definition marker_and_process_checks ::
    "remove_env \<Rightarrow> string \<Rightarrow> bool \<Rightarrow> claim option \<Rightarrow> bool \<times> string \<times> info option" where
  "marker_and_process_checks env wt force claim_info =
     (case check_session_marker_recent env wt of
        (is_recent, marker_time) \<Rightarrow>
          if is_recent \<and> \<not> force then (True, ''session_marker'', Some (Marker_info marker_time))
          else (let processes_using = check_processes_using_worktree env wt in
                if processes_using \<noteq> [] \<and> \<not> force
                then (True, ''process'', Some (Process_info processes_using))
                else (False, [], map_option Claim_info claim_info)))"

text \<open>
  \<open>should_block_removal\<close>: the verdict, or the exception that \<open>is_branch_merged\<close> lets
  pass. The branch is looked up, and the merge check run, only for a claim of another
  owner; the status of the worktree is read only when the branch is found merged.
\<close>

definition should_block_removal ::
    "remove_env \<Rightarrow> string \<Rightarrow> bool \<Rightarrow> ledger option \<Rightarrow> identity
       \<Rightarrow> exn + bool \<times> string \<times> info option" where
  "should_block_removal env wt force claims_file my_identity =
     (case check_worktree_claimed env wt claims_file of
        (is_claimed, claim_info) \<Rightarrow>
          (case claim_info of
             None \<Rightarrow> Inr (marker_and_process_checks env wt force claim_info)
           | Some c \<Rightarrow>
               if is_claimed \<and> \<not> force then
                 (let claim_owner = dict_get_default [] (cc_id c);
                      my_branch = dict_get_default [] (branch my_identity);
                      my_cwd = dict_get_default [] (cwd my_identity);
                      is_mine = (truthy_str claim_owner
                                 \<and> (claim_owner = my_branch \<or> claim_owner = my_cwd))
                  in if \<not> is_mine then
                       (case get_worktree_branch env wt of
                          None \<Rightarrow> Inr (True, ''ownership'', Some (Claim_info c))
                        | Some b \<Rightarrow>
                            if b = [] then Inr (True, ''ownership'', Some (Claim_info c))
                            else (case is_branch_merged env b of
                                    Inl e \<Rightarrow> Inl e
                                  | Inr merged \<Rightarrow>
                                      if merged \<and> \<not> fst (has_uncommitted_changes env wt)
                                      then Inr (False, ''merged_safe'', Some (Claim_info c))
                                      else Inr (True, ''ownership'', Some (Claim_info c))))
                     else Inr (True, ''claim'', Some (Claim_info c)))
               else Inr (marker_and_process_checks env wt force claim_info)))"

text \<open>
  The step of \<open>remove_worktree\<close> that follows the verdict: on \<open>merged_safe\<close> the claim is
  released from the ledger of the main repository. The result is the ledger afterwards,
  or the exception of \<open>should_block_removal\<close>, which \<open>remove_worktree\<close> does not catch.
\<close>

definition remove_worktree_release ::
    "remove_env \<Rightarrow> string \<Rightarrow> bool \<Rightarrow> ledger option \<Rightarrow> identity \<Rightarrow> string
       \<Rightarrow> exn + ledger option" where
  "remove_worktree_release env wt force claims_file my_identity now_iso =
     (case should_block_removal env wt force claims_file my_identity of
        Inl e \<Rightarrow> Inl e
      | Inr (block, why, Some (Claim_info c)) \<Rightarrow>
          if \<not> block \<and> why = ''merged_safe''
          then Inr (release_claim_worktree (dict_get_default [] (cc_id c)) now_iso claims_file)
          else Inr claims_file
      | Inr _ \<Rightarrow> Inr claims_file)"

subsection \<open>Example inputs for the ownership guard\<close>

text \<open>
  A worktree \<open>/repo/worktrees/plan-7\<close> on branch \<open>plan-7\<close>, clean, with a session marker
  written a millisecond ago and a shell whose working directory is inside it. In
  \<open>env_unmerged\<close> no branch but the mainline is merged; in \<open>env_merged\<close> the branch
  \<open>plan-7\<close> is; in \<open>env_other_merged\<close> the branch \<open>feature/plan-7\<close> is, and \<open>plan-7\<close> is
  not; in \<open>env_no_gh\<close> nothing is merged and \<open>gh\<close> is not installed.
\<close>

definition env_unmerged :: remove_env where
  "env_unmerged =
     \<lparr> fromisoformat = (\<lambda>s. if s = ''2026-01-01T00:00:00+00:00''
                               then Some \<lparr> wall_us = 1000, utcoffset_us = Some 0 \<rparr>
                               else None),
       now_us = 2000,
       resolve = (\<lambda>p. p), abspath = (\<lambda>p. p),
       git_branch_show_current = (\<lambda>p. (True, ''plan-7'')),
       git_status_porcelain = (\<lambda>p. (True, [])),
       git_merged = Git_lines [''  origin/main''],
       gh_merged = Gh_heads [],
       marker_file = (\<lambda>p. Some ''2026-01-01T00:00:00+00:00''),
       has_psutil = True,
       process_iter = [\<lparr> pid = 4242, pname = ''bash'',
                         proc_cwd = Some ''/repo/worktrees/plan-7/src'' \<rparr>],
       getpid = 1 \<rparr>"

definition env_merged :: remove_env where
  "env_merged =
     env_unmerged\<lparr> git_merged := Git_lines [''  origin/main'', ''  origin/plan-7''] \<rparr>"


definition env_no_gh :: remove_env where
  "env_no_gh = env_unmerged\<lparr> gh_merged := Gh_not_found \<rparr>"

definition claim7 :: claim where
  "claim7 = claim_of ''plan-7'' (Some 7) None (Some ''/repo/worktrees/plan-7'')"

definition ledger7 :: ledger where
  "ledger7 = \<lparr> claims = [claim7], completed = [] \<rparr>"

definition caller :: identity where
  "caller = \<lparr> branch = Str ''main'', is_main = Some True, cwd = Str ''repo'' \<rparr>"

definition history_reasons :: "exn + ledger option \<Rightarrow> string option list" where
  "history_reasons r =
     (case r of Inr (Some data) \<Rightarrow> map reason (completed data) | _ \<Rightarrow> [])"

definition old_entry :: completion where
  "old_entry = \<lparr> c_cc_id = Some ''plan-1'', c_plan = Some 1, c_task = Some ''done'',
                 completed_at = ''2026-01-01T00:00:00Z'', auto_completed = None,
                 reason = None, commit = None \<rparr>"

section \<open>Claims and sessions: \<open>check_claims.py\<close>\<close>

text \<open>
  The value of the key \<open>last_activity\<close> of a session as YAML loads it: absent (or
  \<open>None\<close>), a string, or a value of another type (a timestamp that YAML parsed, a
  number, a list), of which only the truth value matters.
\<close>

datatype yaml_scalar = Missing | Text string | Non_text bool

record session =
  s_session_id :: "string option"
  hostname :: "string option"
  s_pid :: "int option"
  started_at :: "string option"
  last_activity :: yaml_scalar
  working_on :: "string option"

text \<open>
  What \<open>load_session\<close> gives for a session file: \<open>None\<close> (the file cannot be read or
  parsed), a document that is true and is not a mapping, or a mapping (an empty or false
  document loads as the empty mapping).
\<close>

datatype session_file = Unloadable | Not_a_mapping | Loaded session

text \<open>
  One entry of \<open>Path.rglob("*")\<close>: its name, whether it is a regular file, and its
  modification time (\<open>None\<close> where \<open>stat\<close> raises \<open>OSError\<close>).
\<close>

record file_entry =
  fe_name :: string
  fe_is_file :: bool
  fe_mtime :: "int option"

text \<open>
  What \<open>check_claims.py\<close> reads from outside itself, besides the clock:
  \<^item> \<open>sessions_dir\<close>: \<open>None\<close> when the sessions directory does not exist, else the result
    of \<open>load_session\<close> for each \<open>*.session\<close> file, in the order of the glob;
  \<^item> \<open>get_session_id\<close>: the id of the session of the running process;
  \<^item> \<open>get_merged_branches\<close>, \<open>get_plan_status\<close>, \<open>get_feature_names\<close>,
    \<open>find_worktree_for_branch\<close>, \<open>validate_plan_for_completion\<close>: the results of the
    functions of these names, which read git, the plan files and the feature registry;
  \<^item> \<open>save_claim_to_worktree\<close>: whether the claim file of a worktree can be written;
  \<^item> \<open>path_exists\<close>, \<open>path_is_dir\<close>, \<open>git_index_mtime\<close> (\<open>None\<close> when the index is not
    found or cannot be read), \<open>rglob\<close> (per worktree and source directory, \<open>None\<close> when
    the directory does not exist), \<open>root_mtime\<close>: the file system;
  \<^item> \<open>now_strftime\<close>, \<open>now_isoformat\<close>: the clock as the two formats the script writes.
\<close>

record claims_env = clock +
  sessions_dir :: "session_file list option"
  get_session_id :: string
  get_merged_branches :: "string list"
  get_plan_status :: "int \<Rightarrow> string \<times> int list"
  get_feature_names :: "string list"
  find_worktree_for_branch :: "string \<Rightarrow> string option"
  validate_plan_for_completion :: "int \<Rightarrow> bool"
  save_claim_to_worktree :: "string \<Rightarrow> bool"
  path_exists :: "string \<Rightarrow> bool"
  path_is_dir :: "string \<Rightarrow> bool"
  git_index_mtime :: "string \<Rightarrow> int option"
  rglob :: "string \<Rightarrow> string \<Rightarrow> file_entry list option"
  root_mtime :: "string \<Rightarrow> int option"
  now_strftime :: string
  now_isoformat :: string

text \<open>
  What the script keeps on disk: the ledger file (\<open>None\<close> when there is none), the claim
  file of each worktree, and the session files.
\<close>

record persisted =
  ledger_file :: "ledger option"
  claim_files :: "(string \<times> claim) list"
  session_files :: "session_file list"

definition STALENESS_MINUTES :: int where
  "STALENESS_MINUTES = 30"

subsection \<open>SessionRegistry: \<open>is_session_stale\<close>\<close>

text \<open>
  \<open>timedelta(minutes=m)\<close>: the duration in microseconds, or \<open>OverflowError\<close> when its
  number of days is beyond 999999999 in magnitude.
\<close>

definition timedelta_minutes :: "int \<Rightarrow> exn + int" where
  "timedelta_minutes m =
     (if - 999999999 \<le> m div 1440 \<and> m div 1440 \<le> 999999999 then Inr (minutes_us m)
      else Inl OverflowError)"

text \<open>
  What the loop of \<open>is_session_stale\<close> does with the record that has the id. The \<open>try\<close>
  around the parsing and the comparison catches \<open>ValueError\<close> only: \<open>fromisoformat\<close>
  raises \<open>TypeError\<close> on a value that is not a string, and the threshold can raise
  \<open>OverflowError\<close>.
\<close>

definition session_verdict :: "claims_env \<Rightarrow> int \<Rightarrow> session \<Rightarrow> exn + bool \<times> session option" where
  "session_verdict env staleness_minutes sess =
     (case last_activity sess of
        Missing \<Rightarrow> Inr (True, Some sess)
      | Non_text truth \<Rightarrow> if truth then Inl TypeError else Inr (True, Some sess)
      | Text la \<Rightarrow>
          if la = [] then Inr (True, Some sess)
          else (case fromisoformat env la of
                  None \<Rightarrow> Inr (True, Some sess)
                | Some t \<Rightarrow>
                    (let age = now_us env - utc_instant t in
                     case timedelta_minutes staleness_minutes of
                       Inl e \<Rightarrow> Inl e
                     | Inr threshold \<Rightarrow>
                         if age > threshold then Inr (True, Some sess)
                         else Inr (False, Some sess))))"

text \<open>
  The loop over the session files. A file that does not load, or whose \<open>session_id\<close> is
  another one, is passed over; a document that is not a mapping has no \<open>get\<close>; the first
  mapping with the id decides.
\<close>

fun session_scan ::
    "claims_env \<Rightarrow> string \<Rightarrow> int \<Rightarrow> session_file list \<Rightarrow> exn + bool \<times> session option" where
  "session_scan env sid staleness_minutes [] = Inr (True, None)"
| "session_scan env sid staleness_minutes (f # rest) =
     (case f of
        Unloadable \<Rightarrow> session_scan env sid staleness_minutes rest
      | Not_a_mapping \<Rightarrow> Inl AttributeError
      | Loaded sess \<Rightarrow>
          if s_session_id sess = Some sid then session_verdict env staleness_minutes sess
          else session_scan env sid staleness_minutes rest)"

definition is_session_stale ::
    "claims_env \<Rightarrow> string \<Rightarrow> int \<Rightarrow> exn + bool \<times> session option" where
  "is_session_stale env sid staleness_minutes =
     (case sessions_dir env of
        None \<Rightarrow> Inr (True, None)
      | Some fs \<Rightarrow> session_scan env sid staleness_minutes fs)"

text \<open>
  In the words of the specification: the record that matches an id is the first loaded
  record with that id.
\<close>

definition loaded_sessions :: "session_file list \<Rightarrow> session list" where
  "loaded_sessions fs = List.map_filter (\<lambda>f. case f of Loaded s \<Rightarrow> Some s | _ \<Rightarrow> None) fs"

definition matching_session :: "claims_env \<Rightarrow> string \<Rightarrow> session option" where
  "matching_session env sid =
     (case sessions_dir env of
        None \<Rightarrow> None
      | Some fs \<Rightarrow> find (\<lambda>s. s_session_id s = Some sid) (loaded_sessions fs))"

subsection \<open>ClaimStore: \<open>add_claim\<close> and \<open>release_claim\<close>\<close>

text \<open>
  \<open>check_plan_dependencies\<close>; the issues are the blockers that are not complete (the
  script formats one message for each).
\<close>

definition check_plan_dependencies :: "claims_env \<Rightarrow> int \<Rightarrow> bool \<times> int list" where
  "check_plan_dependencies env plan_number =
     (case get_plan_status env plan_number of
        (status, blockers) \<Rightarrow>
          if blockers = [] then (True, [])
          else (let issues = filter (\<lambda>b. fst (get_plan_status env b) \<noteq> ''complete'') blockers
                in (issues = [], issues)))"

text \<open>\<open>a or b\<close> on optional strings.\<close>

definition py_or :: "string option \<Rightarrow> string option \<Rightarrow> string option" where
  "py_or a b = (if truthy_str a then a else b)"

text \<open>
  \<open>add_claim\<close> returns whether the claim was added, together with the ledger afterwards
  (the script mutates \<open>data\<close> and saves it). What it prints is left out.
\<close>

definition add_claim ::
    "claims_env \<Rightarrow> ledger \<Rightarrow> string \<Rightarrow> int option \<Rightarrow> string option \<Rightarrow> string
       \<Rightarrow> string list option \<Rightarrow> string option \<Rightarrow> bool \<Rightarrow> string option \<Rightarrow> bool \<times> ledger" where
  "add_claim env data ident new_plan new_feature new_task new_files wt force sid =
     (if ident = ''main'' then (False, data)
      else if list_ex (\<lambda>c. dict_get (cc_id c) = Some ident) (claims data) then (False, data)
      else if truthy_int new_plan
              \<and> \<not> fst (check_plan_dependencies env (case new_plan of Some n \<Rightarrow> n | None \<Rightarrow> 0))
              \<and> \<not> force
      then (False, data)
      else if truthy_str new_feature
              \<and> \<not> list_ex (\<lambda>f. Some f = new_feature) (get_feature_names env)
      then (False, data)
      else if check_scope_conflict new_plan new_feature (claims data) \<noteq> [] \<and> \<not> force
      then (False, data)
      else
        (let the_session = (case sid of None \<Rightarrow> get_session_id env | Some s \<Rightarrow> s);
             new_claim =
               \<lparr> cc_id = Str ident,
                 plan = (if truthy_int new_plan then new_plan else None),
                 feature = (if truthy_str new_feature then new_feature else None),
                 task = Some new_task,
                 claimed_at = Some (now_strftime env),
                 session_id = Some the_session,
                 worktree_path = (if truthy_str wt then wt else None),
                 files = (case new_files of
                            None \<Rightarrow> None
                          | Some fl \<Rightarrow> if fl = [] then None else Some fl) \<rparr>;
             wt_path = py_or wt (find_worktree_for_branch env ident);
             written_claim =
               (case wt_path of
                  None \<Rightarrow> new_claim
                | Some p \<Rightarrow>
                    if p \<noteq> [] \<and> save_claim_to_worktree env p
                    then new_claim\<lparr> worktree_path := Some p \<rparr>
                    else new_claim)
         in (True, data\<lparr> claims := claims data @ [written_claim] \<rparr>)))"

text \<open>
  \<open>release_claim\<close> of \<open>check_claims.py\<close>: whether the claim was released, and the ledger
  afterwards; or the exception of \<open>is_session_stale\<close>, which is called for a claim of
  another session when \<open>force\<close> is off.
\<close>

definition release_entry :: "claims_env \<Rightarrow> string \<Rightarrow> claim \<Rightarrow> string option \<Rightarrow> completion" where
  "release_entry env ident c commit_hash =
     \<lparr> c_cc_id = Some ident, c_plan = plan c, c_task = task c,
       completed_at = now_strftime env, auto_completed = None, reason = None,
       commit = (if truthy_str commit_hash then commit_hash else None) \<rparr>"

definition release_found ::
    "claims_env \<Rightarrow> ledger \<Rightarrow> string \<Rightarrow> claim \<Rightarrow> string option \<Rightarrow> bool \<Rightarrow> bool \<Rightarrow> bool \<times> ledger" where
  "release_found env data ident claim_to_remove commit_hash validate force =
     (if validate \<and> truthy_int (plan claim_to_remove)
         \<and> \<not> validate_plan_for_completion env
               (case plan claim_to_remove of Some n \<Rightarrow> n | None \<Rightarrow> 0)
         \<and> \<not> force
      then (False, data)
      else (True, \<lparr> claims = remove1 claim_to_remove (claims data),
                    completed = last_n 20 (completed data @
                                  [release_entry env ident claim_to_remove commit_hash]) \<rparr>))"

definition release_claim ::
    "claims_env \<Rightarrow> ledger \<Rightarrow> string \<Rightarrow> string option \<Rightarrow> bool \<Rightarrow> bool \<Rightarrow> string option
       \<Rightarrow> exn + bool \<times> ledger" where
  "release_claim env data ident commit_hash validate force sid =
     (case find (\<lambda>c. dict_get (cc_id c) = Some ident) (claims data) of
        None \<Rightarrow> Inr (False, data)
      | Some claim_to_remove \<Rightarrow>
          if truthy_str (session_id claim_to_remove) \<and> \<not> force
             \<and> session_id claim_to_remove
                 \<noteq> Some (case sid of None \<Rightarrow> get_session_id env | Some s \<Rightarrow> s)
          then (case is_session_stale env
                       (case session_id claim_to_remove of Some s \<Rightarrow> s | None \<Rightarrow> [])
                       STALENESS_MINUTES of
                  Inl e \<Rightarrow> Inl e
                | Inr (is_stale, stale_session) \<Rightarrow>
                    if is_stale
                    then Inr (release_found env data ident claim_to_remove commit_hash
                                validate force)
                    else Inr (False, data))
          else Inr (release_found env data ident claim_to_remove commit_hash validate force))"

subsection \<open>Cleanup of merged branches\<close>

text \<open>
  The loop of \<open>cleanup_merged_claims\<close>, with the four things it updates: the completed
  list, the count, the worktrees to remove and the claims to keep.
\<close>

definition branch_is_merged :: "claims_env \<Rightarrow> claim \<Rightarrow> bool" where
  "branch_is_merged env c =
     list_ex (\<lambda>b. Some b = dict_get_default [] (cc_id c)) (get_merged_branches env)"

fun merged_loop ::
    "claims_env \<Rightarrow> claim list \<Rightarrow> completion list \<times> nat \<times> string list \<times> claim list
       \<Rightarrow> completion list \<times> nat \<times> string list \<times> claim list" where
  "merged_loop env [] st = st"
| "merged_loop env (c # rest) (done, cleaned_count, worktrees_to_remove, claims_to_keep) =
     (if branch_is_merged env c then
        merged_loop env rest
          (done @ [\<lparr> c_cc_id = dict_get_default [] (cc_id c), c_plan = plan c,
                      c_task = task c, completed_at = now_strftime env,
                      auto_completed = Some True,
                      reason = Some ''branch_merged'', commit = None \<rparr>],
           Suc cleaned_count,
           (case worktree_path c of
              None \<Rightarrow> worktrees_to_remove
            | Some p \<Rightarrow> if p = [] then worktrees_to_remove else worktrees_to_remove @ [p]),
           claims_to_keep)
      else merged_loop env rest
             (done, cleaned_count, worktrees_to_remove, claims_to_keep @ [c]))"

definition cleanup_merged_claims :: "claims_env \<Rightarrow> ledger \<Rightarrow> (nat \<times> string list) \<times> ledger" where
  "cleanup_merged_claims env data =
     (if get_merged_branches env = [] then ((0, []), data)
      else (case merged_loop env (claims data) (completed data, 0, [], []) of
              (done, cleaned_count, worktrees_to_remove, claims_to_keep) \<Rightarrow>
                if cleaned_count > 0
                then ((cleaned_count, worktrees_to_remove),
                      \<lparr> claims = claims_to_keep, completed = last_n 50 done \<rparr>)
                else ((cleaned_count, worktrees_to_remove), data)))"

subsection \<open>StalenessDetector\<close>

definition newer :: "int option \<Rightarrow> int \<Rightarrow> int option" where
  "newer most_recent mtime =
     (case most_recent of
        None \<Rightarrow> Some mtime
      | Some r \<Rightarrow> if mtime > r then Some mtime else Some r)"

definition max_files :: nat where
  "max_files = 100"

definition source_dirs :: "string list" where
  "source_dirs = [''src'', ''scripts'', ''tests'', ''docs'']"

text \<open>
  The inner loop of \<open>get_worktree_last_modified\<close> over the entries of one source
  directory, with the most recent time and the number of files checked so far.
\<close>

fun scan_files :: "file_entry list \<Rightarrow> int option \<times> nat \<Rightarrow> int option \<times> nat" where
  "scan_files [] st = st"
| "scan_files (f # rest) (most_recent, checked_files) =
     (if checked_files \<ge> max_files then (most_recent, checked_files)
      else if fe_is_file f \<and> \<not> prefix ''.'' (fe_name f) then
        (case fe_mtime f of
           None \<Rightarrow> scan_files rest (most_recent, checked_files)
         | Some mtime \<Rightarrow> scan_files rest (newer most_recent mtime, Suc checked_files))
      else scan_files rest (most_recent, checked_files))"

fun scan_dirs ::
    "claims_env \<Rightarrow> string \<Rightarrow> string list \<Rightarrow> int option \<times> nat \<Rightarrow> int option \<times> nat" where
  "scan_dirs env p [] st = st"
| "scan_dirs env p (d # ds) st =
     (case rglob env p d of
        None \<Rightarrow> scan_dirs env p ds st
      | Some entries \<Rightarrow> scan_dirs env p ds (scan_files entries st))"

definition get_worktree_last_modified :: "claims_env \<Rightarrow> string \<Rightarrow> int option" where
  "get_worktree_last_modified env p =
     (if \<not> path_exists env p \<or> \<not> path_is_dir env p then None
      else (case fst (scan_dirs env p source_dirs (git_index_mtime env p, 0)) of
              None \<Rightarrow> root_mtime env p
            | Some t \<Rightarrow> Some t))"

subsubsection \<open>Double precision\<close>

text \<open>
  \<open>hours_since = (now - last_modified).total_seconds() / 3600\<close> is computed in double
  precision: the microseconds are divided by \<open>10**6\<close> and the quotient by 3600, each
  division rounded to the nearest double, ties to the even significand. The doubles are
  modelled as the rationals with a significand of 53 bits (the exponent is not bounded:
  the quotients of a time difference are far from the ends of its range).
\<close>

definition pow2 :: "int \<Rightarrow> rat" where
  "pow2 e = (if 0 \<le> e then 2 ^ nat e else 1 / 2 ^ nat (- e))"

text \<open>For \<open>x > 0\<close>, the exponent \<open>e\<close> with \<open>2\<^sup>e \<le> x < 2\<^sup>e\<^sup>+\<^sup>1\<close>.\<close>

definition binade :: "rat \<Rightarrow> int" where
  "binade x = (if 1 \<le> x then bitlen \<lfloor>x\<rfloor> - 1 else - bitlen (\<lceil>1 / x\<rceil> - 1))"

definition round_half_even :: "rat \<Rightarrow> int" where
  "round_half_even q =
     (let n = \<lfloor>q\<rfloor>; r = q - of_int n in
      if r < 1 / 2 then n
      else if 1 / 2 < r then n + 1
      else if even n then n else n + 1)"

definition round_pos :: "rat \<Rightarrow> rat" where
  "round_pos x = (let u = pow2 (binade x - 52) in of_int (round_half_even (x / u)) * u)"

definition round_double :: "rat \<Rightarrow> rat" where
  "round_double x =
     (if x = 0 then 0 else if 0 < x then round_pos x else - round_pos (- x))"

definition hours_since :: "int \<Rightarrow> rat" where
  "hours_since d = round_double (round_double (of_int d / 1000000) / 3600)"

text \<open>
  The second component of the result of \<open>is_claim_stale\<close>: the script formats a message
  from the same data.
\<close>

datatype stale_reason =
    No_worktree_path
  | Worktree_does_not_exist string
  | Activity_unknown
  | Inactive rat int
  | Active rat

definition is_claim_stale :: "claims_env \<Rightarrow> claim \<Rightarrow> int \<Rightarrow> bool \<times> stale_reason" where
  "is_claim_stale env c max_hours =
     (case worktree_path c of
        None \<Rightarrow> (True, No_worktree_path)
      | Some p \<Rightarrow>
          if p = [] then (True, No_worktree_path)
          else if \<not> path_exists env p then (True, Worktree_does_not_exist p)
          else (case get_worktree_last_modified env p of
                  None \<Rightarrow> (True, Activity_unknown)
                | Some last_modified \<Rightarrow>
                    (let since = hours_since (now_us env - last_modified) in
                     if of_int max_hours < since then (True, Inactive since max_hours)
                     else (False, Active since))))"

text \<open>
  \<open>cleanup_stale_claims\<close>, with what it could change threaded through: the list object
  \<open>claims\<close> it is given (rebuilt claim by claim as the loop leaves it) and the state on
  disk. Where the claim is stale and \<open>dry_run\<close> is off the script executes \<open>pass\<close>.
  The result is the list of identifiers, the list of claims as the call leaves it, and
  the state on disk as the call leaves it.
\<close>

fun stale_loop ::
    "claims_env \<Rightarrow> int \<Rightarrow> bool \<Rightarrow> claim list
       \<Rightarrow> string option list \<times> claim list \<times> persisted
       \<Rightarrow> string option list \<times> claim list \<times> persisted" where
  "stale_loop env max_hours dry_run [] st = st"
| "stale_loop env max_hours dry_run (c # rest) (released, seen, disk) =
     (let ident = dict_get_default ''unknown'' (cc_id c) in
      if fst (is_claim_stale env c max_hours) then
        (if \<not> dry_run
         then stale_loop env max_hours dry_run rest (released @ [ident], seen @ [c], disk)
         else stale_loop env max_hours dry_run rest (released @ [ident], seen @ [c], disk))
      else stale_loop env max_hours dry_run rest (released, seen @ [c], disk))"

definition cleanup_stale_claims ::
    "claims_env \<Rightarrow> claim list \<Rightarrow> int \<Rightarrow> bool \<Rightarrow> persisted
       \<Rightarrow> string option list \<times> claim list \<times> persisted" where
  "cleanup_stale_claims env cs max_hours dry_run disk =
     stale_loop env max_hours dry_run cs ([], [], disk)"

text \<open>The orphan test of \<open>cleanup_orphaned_claims\<close>.\<close>

definition orphaned :: "claims_env \<Rightarrow> claim \<Rightarrow> bool" where
  "orphaned env c =
     (case worktree_path c of
        None \<Rightarrow> True
      | Some p \<Rightarrow> p = [] \<or> \<not> path_exists env p)"

fun orphan_loop ::
    "claims_env \<Rightarrow> claim list \<Rightarrow> string option list \<times> claim list
       \<Rightarrow> string option list \<times> claim list" where
  "orphan_loop env [] st = st"
| "orphan_loop env (c # rest) (cleaned, remaining) =
     (let ident = dict_get_default ''unknown'' (cc_id c) in
      if orphaned env c
      then orphan_loop env rest (cleaned @ [ident], remaining)
      else orphan_loop env rest (cleaned, remaining @ [c]))"

definition cleanup_orphaned_claims ::
    "claims_env \<Rightarrow> claim list \<Rightarrow> bool \<Rightarrow> string option list \<times> claim list" where
  "cleanup_orphaned_claims env cs dry_run = orphan_loop env cs ([], [])"

subsection \<open>The cleanup commands of \<open>main\<close>\<close>

text \<open>
  The branches of \<open>main\<close> for \<open>--cleanup-orphaned\<close> and \<open>--cleanup-stale\<close>, as functions
  from the loaded ledger to the ledger afterwards, which \<open>save_yaml\<close> writes. \<open>claims\<close>
  in \<open>main\<close> is the claim list of \<open>data\<close>.
\<close>

definition orphan_entry :: "claims_env \<Rightarrow> string option \<Rightarrow> completion" where
  "orphan_entry env i =
     \<lparr> c_cc_id = i, c_plan = None, c_task = None, completed_at = now_isoformat env,
       auto_completed = None, reason = Some ''auto_released_orphaned'', commit = None \<rparr>"

definition main_cleanup_orphaned :: "claims_env \<Rightarrow> ledger \<Rightarrow> bool \<Rightarrow> ledger" where
  "main_cleanup_orphaned env data dry_run =
     (case cleanup_orphaned_claims env (claims data) dry_run of
        (cleaned_ids, remaining) \<Rightarrow>
          if cleaned_ids \<noteq> [] \<and> \<not> dry_run
          then \<lparr> claims = remaining,
                 completed = last_n 50 (completed data @ map (orphan_entry env) cleaned_ids) \<rparr>
          else data)"

definition stale_entry :: "claims_env \<Rightarrow> claim list \<Rightarrow> string option \<Rightarrow> completion" where
  "stale_entry env cs i =
     (case find (\<lambda>c. dict_get (cc_id c) = i) cs of
        None \<Rightarrow> \<lparr> c_cc_id = i, c_plan = None, c_task = None,
                  completed_at = now_isoformat env, auto_completed = None,
                  reason = Some ''auto_released_stale'', commit = None \<rparr>
      | Some c \<Rightarrow> \<lparr> c_cc_id = i, c_plan = plan c, c_task = task c,
                    completed_at = now_isoformat env, auto_completed = None,
                    reason = Some ''auto_released_stale'', commit = None \<rparr>)"

definition main_cleanup_stale ::
    "claims_env \<Rightarrow> ledger \<Rightarrow> int \<Rightarrow> bool \<Rightarrow> persisted \<Rightarrow> ledger \<times> persisted" where
  "main_cleanup_stale env data stale_hours dry_run disk =
     (case cleanup_stale_claims env (claims data) stale_hours True disk of
        (stale_ids, claims_now, disk_now) \<Rightarrow>
          if stale_ids \<noteq> [] \<and> \<not> dry_run
          then (let data' =
                      \<lparr> claims = filter (\<lambda>c. \<not> list_ex (\<lambda>i. i = dict_get (cc_id c)) stale_ids)
                                        claims_now,
                        completed = last_n 50 (completed data @
                                      map (stale_entry env claims_now) stale_ids) \<rparr>
                in (data', disk_now\<lparr> ledger_file := Some data' \<rparr>))
          else (data, disk_now))"

subsection \<open>Example inputs for claims and sessions\<close>

text \<open>
  The clock stands at hour 10. Session \<open>s-1\<close> was last active 20 minutes earlier, which
  its file writes with an offset of two hours; the file of session \<open>s-4\<close> holds a
  \<open>last_activity\<close> that YAML loads as a timestamp, not as a string. The worktree of
  \<open>plan-7\<close> holds a file modified at hour 3, that of \<open>plan-9\<close> one modified at hour 1; the
  worktree of \<open>plan-4\<close> does not exist.
\<close>

definition session1 :: session where
  "session1 =
     \<lparr> s_session_id = Some ''s-1'', hostname = Some ''host'', s_pid = Some 10,
       started_at = Some ''2026-01-01T11:00:00+02:00'',
       last_activity = Text ''2026-01-01T11:40:00+02:00'', working_on = None \<rparr>"

definition session4 :: session where
  "session4 =
     \<lparr> s_session_id = Some ''s-4'', hostname = Some ''host'', s_pid = Some 11,
       started_at = Some ''2026-01-01T09:00:00+00:00'',
       last_activity = Non_text True, working_on = None \<rparr>"

definition cenv :: claims_env where
  "cenv =
     \<lparr> fromisoformat = (\<lambda>s. if s = ''2026-01-01T11:40:00+02:00''
                               then Some \<lparr> wall_us = hours_us 11 + minutes_us 40,
                                           utcoffset_us = Some (hours_us 2) \<rparr>
                               else None),
       now_us = hours_us 10,
       sessions_dir = Some [Unloadable, Loaded session1, Loaded session4],
       get_session_id = ''s-2'',
       get_merged_branches = [''plan-3''],
       get_plan_status = (\<lambda>n. (''planned'', [])),
       get_feature_names = [''escrow'', ''ledger'', ''shared''],
       find_worktree_for_branch = (\<lambda>b. None),
       validate_plan_for_completion = (\<lambda>n. True),
       save_claim_to_worktree = (\<lambda>p. True),
       path_exists = (\<lambda>p. p = ''/repo/worktrees/plan-7'' \<or> p = ''/repo/worktrees/plan-9''),
       path_is_dir = (\<lambda>p. p = ''/repo/worktrees/plan-7'' \<or> p = ''/repo/worktrees/plan-9''),
       git_index_mtime = (\<lambda>p. None),
       rglob = (\<lambda>p d. if p = ''/repo/worktrees/plan-9'' \<and> d = ''src''
                       then Some [\<lparr> fe_name = ''a.py'', fe_is_file = True,
                                     fe_mtime = Some (hours_us 1) \<rparr>]
                       else if p = ''/repo/worktrees/plan-7'' \<and> d = ''src''
                       then Some [\<lparr> fe_name = ''b.py'', fe_is_file = True,
                                     fe_mtime = Some (hours_us 3) \<rparr>]
                       else None),
       root_mtime = (\<lambda>p. None),
       now_strftime = ''2026-01-01T10:00:00Z'',
       now_isoformat = ''2026-01-01T10:00:00+00:00'' \<rparr>"

definition claim9 :: claim where
  "claim9 = claim_of ''plan-9'' (Some 9) None (Some ''/repo/worktrees/plan-9'')"

definition claim4 :: claim where
  "claim4 = claim_of ''plan-4'' None (Some ''ledger'') (Some ''/repo/worktrees/plan-4'')"

text \<open>A claim whose \<open>cc_id\<close> is present and \<open>None\<close>, and one without the key.\<close>

definition claim_null :: claim where
  "claim_null = (claim_of [] None None None)\<lparr> cc_id := Null \<rparr>"

definition claim_anon :: claim where
  "claim_anon = (claim_of [] None None None)\<lparr> cc_id := Absent \<rparr>"

definition disk0 :: persisted where
  "disk0 = \<lparr> ledger_file = Some ledger7, claim_files = [(''/repo/worktrees/plan-7'', claim7)],
             session_files = [Loaded session1] \<rparr>"

section \<open>Properties of the conflict check\<close>

lemma scope_loop_step:
  "scope_loop np nf (c # cs) acc =
     (if code_conflict np nf c then scope_loop np nf cs (acc @ [c])
      else scope_loop np nf cs acc)"
  by (auto simp: code_conflict_def Let_def truthy_int_def truthy_str_def
           split: option.splits)

lemma scope_loop_filter:
  "scope_loop np nf cs acc = acc @ filter (code_conflict np nf) cs"
proof (induction cs arbitrary: acc)
  case Nil
  show ?case by simp
next
  case (Cons c cs)
  show ?case
    unfolding scope_loop_step by (simp add: Cons.IH)
qed

lemma check_scope_conflict_filter:
  "nf \<noteq> Some ''shared'' \<Longrightarrow>
   check_scope_conflict np nf cs = filter (code_conflict np nf) cs"
  by (simp add: check_scope_conflict_def scope_loop_filter)

text \<open>
  C1. Whatever the existing claims and the new plan are, a request for the feature
  \<open>shared\<close> has no conflicts.
\<close>

theorem C1_shared_never_conflicts:
  "check_scope_conflict new_plan (Some ''shared'') existing_claims = []"
  by (simp add: check_scope_conflict_def)

theorem C1_shared_never_conflicts_witness:
  "check_scope_conflict (Some 5) (Some ''shared'')
     [claim_of ''agent-A'' (Some 5) (Some ''shared'') None,
      claim_of ''agent-B'' (Some 5) (Some ''ledger'') None] = []"
  by (rule C1_shared_never_conflicts)

text \<open>
  C2, as the specification states it, fails where the new plan is the number \<open>0\<close>: the
  plan is set and equals the plan of the existing claim, yet the claim is not reported.
\<close>

theorem C2_counterexample:
  "spec_conflict (Some 0) None (claim_of ''agent-A'' (Some 0) None None)
   \<and> check_scope_conflict (Some 0) None [claim_of ''agent-A'' (Some 0) None None] = []"
  by (simp add: spec_conflict_def check_scope_conflict_def claim_of_def truthy_int_def
        truthy_str_def)

text \<open>
  C2, amended. For a new feature other than \<open>shared\<close>, an existing claim is in the result
  exactly when the new plan is set, is not \<open>0\<close>, and equals the claim's plan, or the new
  feature is set, is not empty, equals the claim's feature, and is not \<open>shared\<close>. The
  result lists the conflicting claims in the order of the input.
\<close>

theorem C2_conflict_iff:
  assumes "new_feature \<noteq> Some ''shared''" and "c \<in> set existing_claims"
  shows "c \<in> set (check_scope_conflict new_plan new_feature existing_claims) \<longleftrightarrow>
           (\<exists>p. new_plan = Some p \<and> p \<noteq> 0 \<and> plan c = Some p)
           \<or> (\<exists>f. new_feature = Some f \<and> f \<noteq> [] \<and> feature c = Some f \<and> f \<noteq> ''shared'')"
proof -
  have "code_conflict new_plan new_feature c \<longleftrightarrow>
          (\<exists>p. new_plan = Some p \<and> p \<noteq> 0 \<and> plan c = Some p)
          \<or> (\<exists>f. new_feature = Some f \<and> f \<noteq> [] \<and> feature c = Some f \<and> f \<noteq> ''shared'')"
    by (auto simp: code_conflict_def truthy_int_def truthy_str_def split: option.splits)
  with assms show ?thesis
    by (simp add: check_scope_conflict_filter)
qed

theorem C2_conflict_iff_witness:
  "claim_of ''agent-A'' (Some 5) None None
     \<in> set (check_scope_conflict (Some 5) (Some ''ledger'')
              [claim_of ''agent-A'' (Some 5) None None,
               claim_of ''agent-B'' (Some 6) (Some ''escrow'') None])"
proof -
  have a: "Some ''ledger'' \<noteq> Some ''shared''" by simp
  have b: "claim_of ''agent-A'' (Some 5) None None
             \<in> set [claim_of ''agent-A'' (Some 5) None None,
                    claim_of ''agent-B'' (Some 6) (Some ''escrow'') None]" by simp
  show ?thesis
    using C2_conflict_iff [OF a b, of "Some 5"] by (simp add: claim_of_def)
qed

section \<open>Properties of the ownership guard\<close>

lemma find_claim_for_mem:
  "find_claim_for env p cs = (True, Some c) \<Longrightarrow> c \<in> set cs"
  by (induction cs) (auto split: option.splits if_splits)

lemma check_worktree_claimed_mem:
  "check_worktree_claimed env wt (Some data) = (True, Some c) \<Longrightarrow> c \<in> set (claims data)"
  by (simp add: check_worktree_claimed_def find_claim_for_mem)

text \<open>
  What the merge check reports. It reports a branch as not merged when git fails, or
  when no line of git ends in the branch name after a slash and no merged pull request
  has the branch as head. It raises when git is not found, or when no line matches and
  \<open>gh\<close> is not found.
\<close>

lemma is_branch_merged_False_iff:
  "is_branch_merged env b = Inr False \<longleftrightarrow>
     git_merged env = Git_failed
     \<or> (\<exists>lines heads. git_merged env = Git_lines lines \<and> \<not> list_ex (line_matches b) lines
            \<and> gh_merged env = Gh_heads heads \<and> \<not> list_ex (\<lambda>h. h = Some b) heads)"
  by (auto simp: is_branch_merged_def split: git_merged_result.splits gh_merged_result.splits)

lemma is_branch_merged_raises_iff:
  "is_branch_merged env b = Inl e \<longleftrightarrow>
     e = FileNotFoundError
     \<and> (git_merged env = Git_not_found
        \<or> (\<exists>lines. git_merged env = Git_lines lines \<and> \<not> list_ex (line_matches b) lines
              \<and> gh_merged env = Gh_not_found))"
  by (auto simp: is_branch_merged_def split: git_merged_result.splits gh_merged_result.splits)






lemma claimed_merged:
  "check_worktree_claimed env_merged ''/repo/worktrees/plan-7'' (Some ledger7)
     = (True, Some claim7)"
  by (simp add: check_worktree_claimed_def env_merged_def env_unmerged_def ledger7_def
        claim7_def claim_of_def)

lemma branch_merged_env:
  "get_worktree_branch env_merged ''/repo/worktrees/plan-7'' = Some ''plan-7''"
  by (simp add: get_worktree_branch_def env_merged_def env_unmerged_def)

lemma merged_merged: "is_branch_merged env_merged ''plan-7'' = Inr True"
  by (simp add: is_branch_merged_def env_merged_def env_unmerged_def line_matches_def
        strip_def is_space_def)

lemma clean_merged:
  "has_uncommitted_changes env_merged ''/repo/worktrees/plan-7'' = (False, [])"
  by (simp add: has_uncommitted_changes_def env_merged_def env_unmerged_def strip_def)

lemma owner_claim7: "dict_get_default [] (cc_id claim7) = Some ''plan-7''"
  by (simp add: dict_get_default_def claim7_def claim_of_def)

lemma caller_branch: "dict_get_default [] (branch caller) = Some ''main''"
  by (simp add: dict_get_default_def caller_def)

lemma caller_cwd: "dict_get_default [] (cwd caller) = Some ''repo''"
  by (simp add: dict_get_default_def caller_def)

text \<open>
  Where the branch is not merged and \<open>gh\<close> is not installed, the merge check raises, and
  so does \<open>should_block_removal\<close>: there is no verdict.
\<close>

lemma should_block_removal_gh_missing:
  "should_block_removal env_no_gh ''/repo/worktrees/plan-7'' False (Some ledger7) caller
     = Inl FileNotFoundError"
proof -
  have c: "check_worktree_claimed env_no_gh ''/repo/worktrees/plan-7'' (Some ledger7)
             = (True, Some claim7)"
    by (simp add: check_worktree_claimed_def env_no_gh_def env_unmerged_def ledger7_def
          claim7_def claim_of_def)
  have b: "get_worktree_branch env_no_gh ''/repo/worktrees/plan-7'' = Some ''plan-7''"
    by (simp add: get_worktree_branch_def env_no_gh_def env_unmerged_def)
  have m: "is_branch_merged env_no_gh ''plan-7'' = Inl FileNotFoundError"
    by (simp add: is_branch_merged_def env_no_gh_def env_unmerged_def line_matches_def
          strip_def is_space_def suffix_def)
  show ?thesis
    by (simp add: should_block_removal_def c b m owner_claim7 caller_branch caller_cwd
          truthy_str_def Let_def)
qed




text \<open>
  C4, amended. When the ledger holds a claim for the worktree with an owner other than
  the caller, the worktree's branch is merged and the worktree has no uncommitted
  changes, then without \<open>force\<close> the verdict is \<open>merged_safe\<close> (no block, with the claim),
  and the release that follows removes the owner's claims from the ledger and appends one
  entry to the completed history whose reason is \<open>auto_released_merged_pr\<close>.
\<close>

theorem C4_merged_auto_release:
  assumes claimed: "check_worktree_claimed env wt (Some data) = (True, Some c)"
    and owner: "cc_id c = Str owner"
    and other: "Some owner \<noteq> dict_get_default [] (branch me)"
               "Some owner \<noteq> dict_get_default [] (cwd me)"
    and merged: "get_worktree_branch env wt = Some b" "b \<noteq> []"
                "is_branch_merged env b = Inr True"
    and clean: "\<not> fst (has_uncommitted_changes env wt)"
    and noforce: "\<not> force"
  shows "should_block_removal env wt force (Some data) me
           = Inr (False, ''merged_safe'', Some (Claim_info c))
         \<and> remove_worktree_release env wt force (Some data) me now_iso
           = Inr (Some (data\<lparr> claims := filter (\<lambda>x. dict_get (cc_id x) \<noteq> Some owner)
                                          (claims data),
                               completed := completed data @
                                 [\<lparr> c_cc_id = Some owner, c_plan = None, c_task = None,
                                    completed_at = now_iso, auto_completed = None,
                                    reason = Some ''auto_released_merged_pr'',
                                    commit = None \<rparr>] \<rparr>))"
proof -
  have verdict: "should_block_removal env wt force (Some data) me
                   = Inr (False, ''merged_safe'', Some (Claim_info c))"
    using assms by (auto simp: should_block_removal_def Let_def dict_get_default_def)
  have "c \<in> set (claims data)"
    using claimed by (rule check_worktree_claimed_mem)
  with owner have shorter:
    "length (filter (\<lambda>x. dict_get (cc_id x) \<noteq> Some owner) (claims data))
       < length (claims data)"
    by (intro length_filter_less [of c]) (simp_all add: dict_get_def)
  show ?thesis
    using verdict shorter owner
    by (simp add: remove_worktree_release_def release_claim_worktree_def
          dict_get_default_def Let_def)
qed

theorem C4_merged_auto_release_witness:
  "should_block_removal env_merged ''/repo/worktrees/plan-7'' False (Some ledger7) caller
     = Inr (False, ''merged_safe'', Some (Claim_info claim7))
   \<and> remove_worktree_release env_merged ''/repo/worktrees/plan-7'' False (Some ledger7) caller
        ''2026-01-02T00:00:00+00:00''
     = Inr (Some \<lparr> claims = [],
                   completed = [\<lparr> c_cc_id = Some ''plan-7'', c_plan = None, c_task = None,
                                  completed_at = ''2026-01-02T00:00:00+00:00'',
                                  auto_completed = None,
                                  reason = Some ''auto_released_merged_pr'',
                                  commit = None \<rparr>] \<rparr>)"
proof -
  have ow: "cc_id claim7 = Str ''plan-7''" by (simp add: claim7_def claim_of_def)
  have o1: "Some ''plan-7'' \<noteq> dict_get_default [] (branch caller)"
    by (simp add: caller_branch)
  have o2: "Some ''plan-7'' \<noteq> dict_get_default [] (cwd caller)"
    by (simp add: caller_cwd)
  have ne: "''plan-7'' \<noteq> []" by simp
  have cl: "\<not> fst (has_uncommitted_changes env_merged ''/repo/worktrees/plan-7'')"
    by (simp add: clean_merged)
  have f: "\<not> False" by simp
  show ?thesis
    using C4_merged_auto_release [OF claimed_merged ow o1 o2 branch_merged_env ne
            merged_merged cl f, of "''2026-01-02T00:00:00+00:00''"]
    by (simp add: ledger7_def claim7_def claim_of_def dict_get_def)
qed

text \<open>
  C4, as the specification states it, fails on the reason: the entry appended on this
  path carries \<open>auto_released_merged_pr\<close>, and no entry carries \<open>branch_merged\<close>.
\<close>

theorem C4_counterexample:
  "should_block_removal env_merged ''/repo/worktrees/plan-7'' False (Some ledger7) caller
     = Inr (False, ''merged_safe'', Some (Claim_info claim7))
   \<and> history_reasons
        (remove_worktree_release env_merged ''/repo/worktrees/plan-7'' False (Some ledger7)
           caller ''2026-01-02T00:00:00+00:00'')
     = [Some ''auto_released_merged_pr'']
   \<and> Some ''branch_merged'' \<notin> set (history_reasons
        (remove_worktree_release env_merged ''/repo/worktrees/plan-7'' False (Some ledger7)
           caller ''2026-01-02T00:00:00+00:00''))"
proof -
  have v: "should_block_removal env_merged ''/repo/worktrees/plan-7'' False (Some ledger7) caller
     = Inr (False, ''merged_safe'', Some (Claim_info claim7))"
    by (simp add: should_block_removal_def claimed_merged branch_merged_env merged_merged
          clean_merged owner_claim7 caller_branch caller_cwd truthy_str_def Let_def)
  have r: "history_reasons
        (remove_worktree_release env_merged ''/repo/worktrees/plan-7'' False (Some ledger7)
           caller ''2026-01-02T00:00:00+00:00'')
     = [Some ''auto_released_merged_pr'']"
    unfolding remove_worktree_release_def v
    by (simp add: release_claim_worktree_def history_reasons_def
          ledger7_def claim7_def claim_of_def dict_get_def dict_get_default_def Let_def)
  show ?thesis by (simp add: v r)
qed

section \<open>Properties of claims, sessions and cleanup\<close>

text \<open>
  C5, amended. \<open>add_claim\<close> fails and leaves the ledger as it was whenever a claim
  with the same \<open>cc_id\<close> is in the ledger, with \<open>force\<close> on or off.
\<close>

theorem C5_duplicate_fails_even_forced:
  assumes "c \<in> set (claims data)" and "cc_id c = Str ident"
  shows "add_claim env data ident new_plan new_feature new_task new_files wt force sid
           = (False, data)"
proof -
  have "dict_get (cc_id c) = Some ident"
    using assms(2) by (simp add: dict_get_def)
  with assms(1) have "list_ex (\<lambda>c. dict_get (cc_id c) = Some ident) (claims data)"
    by (auto simp: list_ex_iff)
  then show ?thesis by (simp add: add_claim_def)
qed

theorem C5_duplicate_fails_even_forced_witness:
  "add_claim cenv ledger7 ''plan-7'' (Some 8) None ''again'' None None False None
     = (False, ledger7)"
proof -
  have m: "claim7 \<in> set (claims ledger7)" by (simp add: ledger7_def)
  have i: "cc_id claim7 = Str ''plan-7''" by (simp add: claim7_def claim_of_def)
  show ?thesis by (rule C5_duplicate_fails_even_forced [OF m i])
qed

text \<open>
  C5, as the specification states it, fails where \<open>force\<close> is supplied: the branch
  \<open>plan-7\<close> has a claim, and a forced second claim for it is refused all the same.
\<close>

theorem C5_counterexample:
  "list_ex (\<lambda>c. cc_id c = Str ''plan-7'') (claims ledger7)
   \<and> add_claim cenv ledger7 ''plan-7'' (Some 8) None ''again'' None None True None
       = (False, ledger7)"
  by (simp add: add_claim_def ledger7_def claim7_def claim_of_def dict_get_def)

subsection \<open>Session staleness\<close>

text \<open>
  Where every session file that loads is a mapping, \<open>is_session_stale\<close> answers stale
  with no session when no record has the id, and otherwise what \<open>session_verdict\<close> says
  of the first record that has it.
\<close>

lemma session_scan_find:
  assumes "Not_a_mapping \<notin> set fs"
  shows "session_scan env sid m fs =
           (case find (\<lambda>s. s_session_id s = Some sid) (loaded_sessions fs) of
              None \<Rightarrow> Inr (True, None)
            | Some s \<Rightarrow> session_verdict env m s)"
  using assms
proof (induction fs)
  case Nil
  show ?case by (simp add: loaded_sessions_def )
next
  case (Cons f fs)
  then show ?case
    by (cases f) (simp_all add: loaded_sessions_def )
qed

lemma is_session_stale_find:
  assumes "\<forall>fs. sessions_dir env = Some fs \<longrightarrow> Not_a_mapping \<notin> set fs"
  shows "is_session_stale env sid m =
           (case matching_session env sid of
              None \<Rightarrow> Inr (True, None)
            | Some s \<Rightarrow> session_verdict env m s)"
  using assms
  by (simp add: is_session_stale_def matching_session_def session_scan_find
           split: option.splits)

text \<open>
  The verdict on the record: stale when \<open>last_activity\<close> is missing, false, empty or a
  string that does not parse; for a string that parses, stale exactly when the time since
  that instant exceeds the threshold, an instant without a time zone being read as UTC.
\<close>

lemma session_verdict_malformed:
  assumes "last_activity s = Missing \<or> last_activity s = Non_text False
           \<or> (\<exists>la. last_activity s = Text la \<and> (la = [] \<or> fromisoformat env la = None))"
  shows "session_verdict env m s = Inr (True, Some s)"
  using assms by (auto simp: session_verdict_def)

lemma session_verdict_parsed:
  assumes "last_activity s = Text la" and "la \<noteq> []" and "fromisoformat env la = Some t"
    and "- 999999999 \<le> m div 1440" and "m div 1440 \<le> 999999999"
  shows "session_verdict env m s =
           Inr (m * 60000000
                  < now_us env - (wall_us t - (case utcoffset_us t of None \<Rightarrow> 0 | Some off \<Rightarrow> off)),
                Some s)"
  using assms
  by (simp add: session_verdict_def timedelta_minutes_def minutes_us_def utc_instant_def
        Let_def split: option.splits)

text \<open>
  The two ways out of the \<open>try\<close>: a \<open>last_activity\<close> that is true and not a string, and a
  threshold beyond the range of \<open>timedelta\<close>.
\<close>

lemma session_verdict_non_text:
  "last_activity s = Non_text True \<Longrightarrow> session_verdict env m s = Inl TypeError"
  by (simp add: session_verdict_def)

lemma session_verdict_overflow:
  assumes "last_activity s = Text la" and "la \<noteq> []" and "fromisoformat env la = Some t"
    and "m div 1440 < - 999999999 \<or> 999999999 < m div 1440"
  shows "session_verdict env m s = Inl OverflowError"
  using assms by (auto simp: session_verdict_def timedelta_minutes_def Let_def)

lemma matching_session_s1: "matching_session cenv ''s-1'' = Some session1"
  by (simp add: matching_session_def cenv_def loaded_sessions_def session1_def)

lemma matching_session_s3: "matching_session cenv ''s-3'' = None"
  by (simp add: matching_session_def cenv_def loaded_sessions_def session1_def session4_def)

lemma matching_session_s4: "matching_session cenv ''s-4'' = Some session4"
  by (simp add: matching_session_def cenv_def loaded_sessions_def session1_def session4_def)

lemma cenv_mappings: "\<forall>fs. sessions_dir cenv = Some fs \<longrightarrow> Not_a_mapping \<notin> set fs"
  by (simp add: cenv_def)

text \<open>
  Session \<open>s-1\<close>, active 20 minutes ago by a timestamp with an offset of two hours, is
  not stale at 30 minutes and stale at 10; the unknown session \<open>s-3\<close> is stale.
\<close>

lemma is_session_stale_examples:
  "is_session_stale cenv ''s-1'' STALENESS_MINUTES = Inr (False, Some session1)"
  "is_session_stale cenv ''s-1'' 10 = Inr (True, Some session1)"
  "is_session_stale cenv ''s-3'' STALENESS_MINUTES = Inr (True, None)"
proof -
  have la: "last_activity session1 = Text ''2026-01-01T11:40:00+02:00''"
    by (simp add: session1_def)
  have ne: "''2026-01-01T11:40:00+02:00'' \<noteq> []" by simp
  have p: "fromisoformat cenv ''2026-01-01T11:40:00+02:00''
             = Some \<lparr> wall_us = hours_us 11 + minutes_us 40, utcoffset_us = Some (hours_us 2) \<rparr>"
    by (simp add: cenv_def)
  have n: "now_us cenv = hours_us 10" by (simp add: cenv_def)
  show "is_session_stale cenv ''s-1'' STALENESS_MINUTES = Inr (False, Some session1)"
    unfolding is_session_stale_find [OF cenv_mappings] matching_session_s1
    using session_verdict_parsed [OF la ne p, of STALENESS_MINUTES]
    by (simp add: STALENESS_MINUTES_def n hours_us_def minutes_us_def)
  show "is_session_stale cenv ''s-1'' 10 = Inr (True, Some session1)"
    unfolding is_session_stale_find [OF cenv_mappings] matching_session_s1
    using session_verdict_parsed [OF la ne p, of 10]
    by (simp add: n hours_us_def minutes_us_def)
  show "is_session_stale cenv ''s-3'' STALENESS_MINUTES = Inr (True, None)"
    unfolding is_session_stale_find [OF cenv_mappings] matching_session_s3 by simp
qed

text \<open>
  C6, where the code departs from it. The record of session \<open>s-4\<close> matches, and its
  \<open>last_activity\<close> is malformed: a value that is not a string. \<open>is_session_stale\<close> does
  not answer stale: \<open>TypeError\<close> leaves it.
\<close>

theorem C6_non_string_last_activity_raises:
  "matching_session cenv ''s-4'' = Some session4
   \<and> last_activity session4 = Non_text True
   \<and> is_session_stale cenv ''s-4'' STALENESS_MINUTES = Inl TypeError"
proof -
  have la: "last_activity session4 = Non_text True" by (simp add: session4_def)
  have "is_session_stale cenv ''s-4'' STALENESS_MINUTES = Inl TypeError"
    unfolding is_session_stale_find [OF cenv_mappings] matching_session_s4
    by (simp add: session_verdict_non_text [OF la])
  then show ?thesis by (simp add: matching_session_s4 la)
qed

subsection \<open>Double precision: rounding is monotone\<close>

text \<open>
  Four doubles, evaluated: 28800 and 8, and one double just above each.
\<close>

lemma round_double_28800: "round_double 28800 = 28800"
  by code_simp

lemma round_double_above_28800: "round_double (28800 + 1 / 2^20) = 28800 + 1 / 2^20"
  by code_simp

lemma round_double_8: "round_double 8 = 8"
  by code_simp

lemma round_double_above_8: "round_double (8 + 1/2^32) = 8 + 1/2^32"
  by code_simp


lemma pow2_powi: "pow2 e = 2 powi e"
proof (cases "0 \<le> e")
  case True
  then show ?thesis by (simp add: pow2_def power_int_def)
next
  case False
  then show ?thesis by (simp add: pow2_def power_int_def power_one_over)
qed

lemma pow2_pos: "0 < pow2 e"
  by (simp add: pow2_powi)

lemma pow2_mono: "a \<le> b \<Longrightarrow> pow2 a \<le> pow2 b"
  by (simp add: pow2_powi power_int_increasing)

lemma pow2_less_cancel: "pow2 a < pow2 b \<Longrightarrow> a < b"
  using pow2_mono [of b a] by (cases "a < b") auto

lemma pow2_add: "pow2 (a + b) = pow2 a * pow2 b"
  by (simp add: pow2_powi power_int_add)

lemma pow2_nat: "0 \<le> e \<Longrightarrow> pow2 e = of_int (2 ^ nat e)"
  by (simp add: pow2_def)

text \<open>The exponent found by \<open>binade\<close> brackets its argument.\<close>

lemma binade_spec:
  assumes "0 < x"
  shows "pow2 (binade x) \<le> x \<and> x < pow2 (binade x + 1)"
proof (cases "1 \<le> x")
  case True
  define z where "z = \<lfloor>x\<rfloor>"
  have zpos: "0 < z" using True by (simp add: z_def)
  have b: "2 ^ nat (bitlen z - 1) \<le> z" "z < 2 ^ nat (bitlen z)"
    using bitlen_bounds [OF zpos] by auto
  have bl: "1 \<le> bitlen z" using zpos by (simp add: bitlen_alt_def)
  have e: "binade x = bitlen z - 1" using True by (simp add: binade_def z_def)
  have "pow2 (bitlen z - 1) = of_int (2 ^ nat (bitlen z - 1))"
    using bl by (intro pow2_nat) simp
  also have "\<dots> \<le> of_int z" using b(1) by (simp only: of_int_le_iff)
  also have "\<dots> \<le> x" by (simp add: z_def)
  finally have lo: "pow2 (binade x) \<le> x" by (simp add: e)
  have "x < of_int (z + 1)" using floor_correct [of x] by (simp add: z_def)
  also have "\<dots> \<le> of_int (2 ^ nat (bitlen z))"
    using b(2) by (simp only: of_int_le_iff)
  also have "\<dots> = pow2 (bitlen z)"
    using bl by (subst pow2_nat) simp_all
  finally have hi: "x < pow2 (binade x + 1)" by (simp add: e)
  show ?thesis using lo hi by simp
next
  case False
  define y where "y = 1 / x"
  define z where "z = \<lceil>y\<rceil> - 1"
  have y1: "1 < y" using False assms by (simp add: y_def)
  have zpos: "0 < z" using y1 by (simp add: z_def less_ceiling_iff)
  have b: "2 ^ nat (bitlen z - 1) \<le> z" "z < 2 ^ nat (bitlen z)"
    using bitlen_bounds [OF zpos] by auto
  have bl: "1 \<le> bitlen z" using zpos by (simp add: bitlen_alt_def)
  have e: "binade x = - bitlen z" using False by (simp add: binade_def z_def y_def)
  have zy: "of_int z < y" "y \<le> of_int (z + 1)"
    by (simp_all add: z_def) linarith+
  have "y \<le> of_int (2 ^ nat (bitlen z))"
  proof -
    have "of_int (z + 1) \<le> (of_int (2 ^ nat (bitlen z)) :: rat)"
      using b(2) by (simp only: of_int_le_iff)
    with zy(2) show ?thesis by linarith
  qed
  then have "y \<le> 2 ^ nat (bitlen z)" by simp
  then have "1 / 2 ^ nat (bitlen z) \<le> x"
    using assms y1 by (simp add: y_def field_simps)
  moreover have "pow2 (- bitlen z) = 1 / 2 ^ nat (bitlen z)"
    using bl by (simp add: pow2_def)
  ultimately have lo: "pow2 (binade x) \<le> x" by (simp add: e)
  have "(of_int (2 ^ nat (bitlen z - 1)) :: rat) \<le> of_int z"
    using b(1) by (simp only: of_int_le_iff)
  then have "(2::rat) ^ nat (bitlen z - 1) \<le> of_int z" by simp
  with zy(1) have "2 ^ nat (bitlen z - 1) < y" by linarith
  then have "x < 1 / 2 ^ nat (bitlen z - 1)"
    using assms by (simp add: y_def field_simps)
  moreover have "pow2 (- bitlen z + 1) = 1 / 2 ^ nat (bitlen z - 1)"
  proof (cases "bitlen z = 1")
    case True
    then show ?thesis by (simp add: pow2_def)
  next
    case False
    with bl have "nat (- (- bitlen z + 1)) = nat (bitlen z - 1)" "\<not> 0 \<le> - bitlen z + 1"
      by auto
    then show ?thesis by (simp add: pow2_def)
  qed
  ultimately have hi: "x < pow2 (binade x + 1)" by (simp add: e)
  show ?thesis using lo hi by simp
qed

lemma round_half_even_bounds:
  "\<lfloor>q\<rfloor> \<le> round_half_even q" "round_half_even q \<le> \<lfloor>q\<rfloor> + 1"
  by (simp_all add: round_half_even_def Let_def)

lemma round_half_even_mono:
  assumes "q \<le> q'"
  shows "round_half_even q \<le> round_half_even q'"
proof (cases "\<lfloor>q\<rfloor> = \<lfloor>q'\<rfloor>")
  case True
  then show ?thesis using assms by (auto simp: round_half_even_def Let_def)
next
  case False
  have "\<lfloor>q\<rfloor> \<le> \<lfloor>q'\<rfloor>" using assms by (rule floor_mono)
  with False have "\<lfloor>q\<rfloor> + 1 \<le> \<lfloor>q'\<rfloor>" by simp
  then show ?thesis
    using round_half_even_bounds(2) [of q] round_half_even_bounds(1) [of q'] by linarith
qed

lemma round_half_even_of_int: "round_half_even (of_int n) = n"
  by (simp add: round_half_even_def Let_def)


lemma round_pos_range:
  assumes "0 < x"
  shows "pow2 (binade x) \<le> round_pos x" "round_pos x \<le> pow2 (binade x + 1)"
proof -
  define u where "u = pow2 (binade x - 52)"
  have upos: "0 < u" by (simp add: u_def pow2_pos)
  have p52: "pow2 52 = of_int (2 ^ 52)" by (simp add: pow2_def)
  have p53: "pow2 53 = of_int (2 ^ 53)" by (simp add: pow2_def)
  have lo_u: "pow2 (binade x) = of_int (2 ^ 52) * u"
    using pow2_add [of 52 "binade x - 52"] by (simp add: u_def p52)
  have hi_u: "pow2 (binade x + 1) = of_int (2 ^ 53) * u"
    using pow2_add [of 53 "binade x - 52"] by (simp add: u_def p53 algebra_simps)
  have "of_int (2 ^ 52) * u \<le> x" "x < of_int (2 ^ 53) * u"
    using binade_spec [OF assms] by (simp_all only: lo_u hi_u)
  then have q: "of_int (2 ^ 52) \<le> x / u" "x / u \<le> of_int (2 ^ 53)"
    using upos by (simp_all add: field_simps)
  have "2 ^ 52 \<le> round_half_even (x / u)"
    using round_half_even_mono [OF q(1)] by (simp only: round_half_even_of_int)
  then have "(of_int (2 ^ 52) :: rat) \<le> of_int (round_half_even (x / u))"
    by (simp only: of_int_le_iff)
  then have "of_int (2 ^ 52) * u \<le> of_int (round_half_even (x / u)) * u"
    using upos by (simp only: mult_le_cancel_right) simp
  then show "pow2 (binade x) \<le> round_pos x"
    by (simp only: lo_u round_pos_def Let_def u_def)
  have "round_half_even (x / u) \<le> 2 ^ 53"
    using round_half_even_mono [OF q(2)] by (simp only: round_half_even_of_int)
  then have "(of_int (round_half_even (x / u)) :: rat) \<le> of_int (2 ^ 53)"
    by (simp only: of_int_le_iff)
  then have "of_int (round_half_even (x / u)) * u \<le> of_int (2 ^ 53) * u"
    using upos by (simp only: mult_le_cancel_right) simp
  then show "round_pos x \<le> pow2 (binade x + 1)"
    by (simp only: hi_u round_pos_def Let_def u_def)
qed

lemma round_pos_pos: "0 < x \<Longrightarrow> 0 < round_pos x"
  using round_pos_range(1) [of x] pow2_pos [of "binade x"] by linarith

lemma round_pos_mono:
  assumes "0 < x" and "x \<le> y"
  shows "round_pos x \<le> round_pos y"
proof -
  have ypos: "0 < y" using assms by linarith
  have "pow2 (binade x) < pow2 (binade y + 1)"
    using binade_spec [OF assms(1)] binade_spec [OF ypos] assms(2) by linarith
  then have le: "binade x \<le> binade y" using pow2_less_cancel by fastforce
  show ?thesis
  proof (cases "binade x = binade y")
    case True
    define u where "u = pow2 (binade y - 52)"
    have upos: "0 < u" by (simp add: u_def pow2_pos)
    have "x / u \<le> y / u" using assms(2) upos by (simp add: divide_right_mono)
    then have "round_half_even (x / u) \<le> round_half_even (y / u)"
      by (rule round_half_even_mono)
    then have "(of_int (round_half_even (x / u)) :: rat) \<le> of_int (round_half_even (y / u))"
      by (simp only: of_int_le_iff)
    then have "of_int (round_half_even (x / u)) * u \<le> of_int (round_half_even (y / u)) * u"
      using upos by (simp only: mult_le_cancel_right) simp
    then show ?thesis by (simp only: round_pos_def Let_def True u_def)
  next
    case False
    with le have "binade x + 1 \<le> binade y" by simp
    then have "pow2 (binade x + 1) \<le> pow2 (binade y)" by (rule pow2_mono)
    then show ?thesis
      using round_pos_range(2) [OF assms(1)] round_pos_range(1) [OF ypos] by linarith
  qed
qed

lemma round_double_mono:
  assumes "x \<le> y"
  shows "round_double x \<le> round_double y"
proof -
  consider "0 < x" | "x = 0" | "x < 0" "y < 0" | "x < 0" "0 \<le> y" by linarith
  then show ?thesis
  proof cases
    case 1
    then have "0 < y" using assms by linarith
    then show ?thesis using 1 round_pos_mono [OF 1 assms] by (simp add: round_double_def)
  next
    case 2
    then show ?thesis
      using assms round_pos_pos [of y] by (cases "y = 0") (auto simp: round_double_def)
  next
    case 3
    have "round_pos (- y) \<le> round_pos (- x)"
      using 3 assms by (intro round_pos_mono) simp_all
    then show ?thesis using 3 by (simp add: round_double_def)
  next
    case 4
    have "round_double x < 0" using 4(1) round_pos_pos [of "- x"] by (simp add: round_double_def)
    moreover have "0 \<le> round_double y"
      using 4(2) round_pos_pos [of y] by (cases "y = 0") (auto simp: round_double_def)
    ultimately show ?thesis by linarith
  qed
qed

text \<open>
  At the threshold of 8 hours the comparison in double precision agrees with the exact
  one: \<open>hours_since\<close> exceeds 8 exactly when more than 28800000000 microseconds have passed.
\<close>

lemma hours_since_8: "8 < hours_since d \<longleftrightarrow> 28800000000 < d"
proof
  assume "28800000000 < d"
  then have "28800000001 \<le> d" by simp
  then have "(28800000001 :: rat) \<le> of_int d" by (metis of_int_le_iff of_int_numeral)
  then have "28800 + 1 / 2 ^ 20 \<le> (of_int d :: rat) / 1000000" by simp
  then have "round_double (28800 + 1 / 2 ^ 20) \<le> round_double (of_int d / 1000000)"
    by (rule round_double_mono)
  then have "28800 + 1 / 2 ^ 20 \<le> round_double (of_int d / 1000000)"
    unfolding round_double_above_28800 .
  then have "8 + 1 / 2 ^ 32 \<le> round_double (of_int d / 1000000) / 3600" by simp
  then have "round_double (8 + 1 / 2 ^ 32) \<le> hours_since d"
    unfolding hours_since_def by (rule round_double_mono)
  then show "8 < hours_since d" unfolding round_double_above_8 by simp
next
  assume gt: "8 < hours_since d"
  show "28800000000 < d"
  proof (rule ccontr)
    assume "\<not> 28800000000 < d"
    then have "d \<le> 28800000000" by simp
    then have "(of_int d :: rat) \<le> 28800000000" by (metis of_int_le_iff of_int_numeral)
    then have "(of_int d :: rat) / 1000000 \<le> 28800" by simp
    then have "round_double (of_int d / 1000000) \<le> round_double 28800"
      by (rule round_double_mono)
    then have "round_double (of_int d / 1000000) / 3600 \<le> 8" unfolding round_double_28800 by simp
    then have "hours_since d \<le> round_double 8"
      unfolding hours_since_def by (rule round_double_mono)
    with gt show False unfolding round_double_8 by simp
  qed
qed

subsection \<open>Claim staleness\<close>

text \<open>
  C7. For a claim whose worktree path is set and exists and whose last modification is
  determined, \<open>is_claim_stale\<close> with the threshold of 8 hours reports stale exactly when
  more than 8 hours have passed since that modification.
\<close>

theorem C7_stale_iff:
  assumes "worktree_path c = Some p" and "p \<noteq> []" and "path_exists env p"
    and "get_worktree_last_modified env p = Some t"
  shows "fst (is_claim_stale env c 8) \<longleftrightarrow> now_us env - t > hours_us 8"
  using assms by (simp add: is_claim_stale_def Let_def hours_since_8 hours_us_def)

lemma last_modified_plan9:
  "get_worktree_last_modified cenv ''/repo/worktrees/plan-9'' = Some (hours_us 1)"
  by (simp add: get_worktree_last_modified_def cenv_def source_dirs_def max_files_def
        newer_def)

lemma last_modified_plan7:
  "get_worktree_last_modified cenv ''/repo/worktrees/plan-7'' = Some (hours_us 3)"
  by (simp add: get_worktree_last_modified_def cenv_def source_dirs_def max_files_def
        newer_def)

theorem C7_stale_iff_witness:
  "now_us cenv - hours_us 1 = hours_us 9 \<and> fst (is_claim_stale cenv claim9 8)
   \<and> now_us cenv - hours_us 3 = hours_us 7 \<and> \<not> fst (is_claim_stale cenv claim7 8)"
proof -
  have p9: "worktree_path claim9 = Some ''/repo/worktrees/plan-9''"
    by (simp add: claim9_def claim_of_def)
  have p7: "worktree_path claim7 = Some ''/repo/worktrees/plan-7''"
    by (simp add: claim7_def claim_of_def)
  have ne9: "''/repo/worktrees/plan-9'' \<noteq> []" by simp
  have ne7: "''/repo/worktrees/plan-7'' \<noteq> []" by simp
  have e9: "path_exists cenv ''/repo/worktrees/plan-9''" by (simp add: cenv_def)
  have e7: "path_exists cenv ''/repo/worktrees/plan-7''" by (simp add: cenv_def)
  have n: "now_us cenv = hours_us 10" by (simp add: cenv_def)
  show ?thesis
    using C7_stale_iff [OF p9 ne9 e9 last_modified_plan9]
          C7_stale_iff [OF p7 ne7 e7 last_modified_plan7]
    by (simp add: n hours_us_def)
qed

lemma stale_plan7: "\<not> fst (is_claim_stale cenv claim7 8)"
  by (simp add: is_claim_stale_def claim7_def claim_of_def last_modified_plan7 Let_def
        hours_since_8)
     (simp add: cenv_def hours_us_def)

lemma stale_plan9: "fst (is_claim_stale cenv claim9 8)"
  by (simp add: is_claim_stale_def claim9_def claim_of_def last_modified_plan9 Let_def
        hours_since_8)
     (simp add: cenv_def hours_us_def)

lemma stale_plan4: "fst (is_claim_stale cenv claim4 8)"
  by (simp add: is_claim_stale_def claim4_def claim_of_def cenv_def)

lemma stale_no_path: "worktree_path c = None \<Longrightarrow> fst (is_claim_stale env c h)"
  by (simp add: is_claim_stale_def)

subsection \<open>Cleanup of orphaned and stale claims\<close>

lemma orphan_loop_char:
  "orphan_loop env cs (cleaned, remaining) =
     (cleaned @ map (\<lambda>c. dict_get_default ''unknown'' (cc_id c)) (filter (orphaned env) cs),
      remaining @ filter (\<lambda>c. \<not> orphaned env c) cs)"
  by (induction cs arbitrary: cleaned remaining) (simp_all add: Let_def)

text \<open>
  C9. Orphan cleanup applied to the claims that a first orphan cleanup left, with the
  file system unchanged, cleans nothing and leaves the same claims.
\<close>

theorem C9_orphan_cleanup_idempotent:
  "cleanup_orphaned_claims env (snd (cleanup_orphaned_claims env cs dry_run)) dry_run'
     = ([], snd (cleanup_orphaned_claims env cs dry_run))"
  by (simp add: cleanup_orphaned_claims_def orphan_loop_char)

lemma orphans_example:
  "cleanup_orphaned_claims cenv [claim7, claim9, claim4] False
     = ([Some ''plan-4''], [claim7, claim9])"
  by (simp add: cleanup_orphaned_claims_def cenv_def claim7_def claim9_def claim4_def
        claim_of_def orphaned_def dict_get_default_def Let_def)

theorem C9_orphan_cleanup_idempotent_witness:
  "cleanup_orphaned_claims cenv [claim7, claim9] False = ([], [claim7, claim9])"
  using C9_orphan_cleanup_idempotent [of cenv "[claim7, claim9, claim4]" False False]
  unfolding orphans_example by simp

lemma stale_loop_char:
  "stale_loop env h dry_run cs (released, seen, disk) =
     (released @ map (\<lambda>c. dict_get_default ''unknown'' (cc_id c))
                     (filter (\<lambda>c. fst (is_claim_stale env c h)) cs),
      seen @ cs, disk)"
  by (induction cs arbitrary: released seen) (simp_all add: Let_def)

text \<open>
  C10. \<open>cleanup_stale_claims\<close> returns the same with \<open>dry_run\<close> on and off. What it
  returns is the \<open>cc_id\<close> of each claim that \<open>is_claim_stale\<close> finds stale at the
  threshold, in the order of the input (\<open>unknown\<close> where the claim has no such key). It
  releases nothing and changes nothing: the list of claims it was given and the state on
  disk are after the call what they were before.
\<close>

theorem C10_stale_cleanup_reports_only:
  "cleanup_stale_claims env cs max_hours True disk
     = cleanup_stale_claims env cs max_hours False disk
   \<and> fst (cleanup_stale_claims env cs max_hours dry_run disk)
       = map (\<lambda>c. dict_get_default ''unknown'' (cc_id c))
             (filter (\<lambda>c. fst (is_claim_stale env c max_hours)) cs)
   \<and> snd (cleanup_stale_claims env cs max_hours dry_run disk) = (cs, disk)"
  by (simp add: cleanup_stale_claims_def stale_loop_char)

theorem C10_stale_cleanup_reports_only_witness:
  "cleanup_stale_claims cenv [claim7, claim9, claim4, claim_null, claim_anon] 8 False disk0
     = ([Some ''plan-9'', Some ''plan-4'', None, Some ''unknown''],
        [claim7, claim9, claim4, claim_null, claim_anon], disk0)"
proof -
  have i9: "dict_get_default ''unknown'' (cc_id claim9) = Some ''plan-9''"
    by (simp add: dict_get_default_def claim9_def claim_of_def)
  have i4: "dict_get_default ''unknown'' (cc_id claim4) = Some ''plan-4''"
    by (simp add: dict_get_default_def claim4_def claim_of_def)
  have inull: "dict_get_default ''unknown'' (cc_id claim_null) = None"
    by (simp add: dict_get_default_def claim_null_def)
  have ianon: "dict_get_default ''unknown'' (cc_id claim_anon) = Some ''unknown''"
    by (simp add: dict_get_default_def claim_anon_def)
  have snull: "fst (is_claim_stale cenv claim_null 8)"
    by (rule stale_no_path) (simp add: claim_null_def claim_of_def)
  have sanon: "fst (is_claim_stale cenv claim_anon 8)"
    by (rule stale_no_path) (simp add: claim_anon_def claim_of_def)
  show ?thesis
    using C10_stale_cleanup_reports_only
            [of cenv "[claim7, claim9, claim4, claim_null, claim_anon]" 8 disk0 False]
    by (simp add: stale_plan7 stale_plan9 stale_plan4 snull sanon i9 i4 inull ianon
          prod_eq_iff)
qed

subsection \<open>The bound on the completed history\<close>

text \<open>
  C8, on the paths of \<open>check_claims.py\<close>: explicit release keeps the last 20 entries, and
  the cleanup of merged branches, of orphans and of stale claims keeps the last 50.
\<close>

lemma length_last_n: "length (last_n n xs) \<le> n"
  by (simp add: last_n_def)

lemma release_found_history:
  assumes "release_found env data ident c commit_hash validate force = (True, data')"
  shows "completed data' = last_n 20 (completed data @ [release_entry env ident c commit_hash])"
  using assms by (auto simp: release_found_def split: if_splits)

lemma release_claim_history_bounded:
  assumes "release_claim env data ident commit_hash validate force sid = Inr (True, data')"
  shows "length (completed data') \<le> 20
         \<and> (\<exists>e. c_cc_id e = Some ident \<and> completed data' = last_n 20 (completed data @ [e]))"
proof -
  obtain c where "release_found env data ident c commit_hash validate force = (True, data')"
    using assms
    by (auto simp: release_claim_def split: option.splits if_splits sum.splits prod.splits)
  then have "completed data'
               = last_n 20 (completed data @ [release_entry env ident c commit_hash])"
    by (rule release_found_history)
  moreover have "c_cc_id (release_entry env ident c commit_hash) = Some ident"
    by (simp add: release_entry_def)
  ultimately show ?thesis by (auto simp: length_last_n)
qed

lemma cleanup_merged_history_bounded:
  assumes "cleanup_merged_claims env data = ((n, wts), data')" and "n > 0"
  shows "length (completed data') \<le> 50"
  using assms
  by (auto simp: cleanup_merged_claims_def length_last_n split: if_splits prod.splits)

lemma main_cleanup_orphaned_history_bounded:
  assumes "fst (cleanup_orphaned_claims env (claims data) False) \<noteq> []"
  shows "length (completed (main_cleanup_orphaned env data False)) \<le> 50"
  using assms
  by (auto simp: main_cleanup_orphaned_def length_last_n split: prod.splits)

lemma main_cleanup_stale_history_bounded:
  assumes "fst (cleanup_stale_claims env (claims data) h True disk) \<noteq> []"
  shows "length (completed (fst (main_cleanup_stale env data h False disk))) \<le> 50"
  using assms
  by (auto simp: main_cleanup_stale_def Let_def length_last_n split: prod.splits)

lemma release_claim_worktree_grows:
  assumes "c \<in> set (claims data)" and "cc_id c = Str ident"
  shows "\<exists>data'. release_claim_worktree (Some ident) now_iso (Some data) = Some data'
           \<and> length (completed data') = Suc (length (completed data))"
proof -
  have "length (filter (\<lambda>x. dict_get (cc_id x) \<noteq> Some ident) (claims data))
          < length (claims data)"
    using assms by (intro length_filter_less [of c]) (simp_all add: dict_get_def)
  then show ?thesis by (simp add: release_claim_worktree_def Let_def)
qed

text \<open>
  C8, on the release of \<open>safe_worktree_remove.py\<close>: a history of 50 entries has 51
  afterwards. This release appends and does not cut the list.
\<close>

theorem C8_worktree_release_unbounded:
  "map_option (\<lambda>d. length (completed d))
     (release_claim_worktree (Some ''plan-7'') ''2026-01-02T00:00:00+00:00''
        (Some \<lparr> claims = [claim7], completed = replicate 50 old_entry \<rparr>)) = Some 51"
  by (simp add: release_claim_worktree_def claim7_def claim_of_def dict_get_def Let_def)

end
